theory Spec2Isabelle
  imports Complex_Main "HOL-Library.Multiset" "HOL-Library.Sublist"
begin

section \<open>FraudDetection: data model\<close>

text \<open>
  The TypeScript sources are embedded shallowly. A JavaScript \<open>number\<close> is modelled as a
  \<^typ>\<open>real\<close>: the values the engine handles are finite, and arithmetic is taken to be
  exact. A \<open>string\<close> is a \<^typ>\<open>string\<close>. String-literal union types are datatypes; where
  two unions share a literal the constructors carry a prefix.
\<close>

text \<open>\<open>types.ts\<close>: \<open>RiskLevel = 'LOW' | 'MEDIUM' | 'CRITICAL'\<close>.\<close>

datatype RiskLevel = LOW | MEDIUM | CRITICAL

text \<open>\<open>Transaction.status\<close>.\<close>

datatype Status = PENDING | ANALYZING | BLOCKED | ALLOWED | FLAGGED

text \<open>\<open>Alert.severity\<close>: \<open>'INFO' | 'WARNING' | 'CRITICAL'\<close>.\<close>

datatype Severity = SEV_INFO | SEV_WARNING | SEV_CRITICAL

text \<open>\<open>DashboardMetrics.system_health\<close>: \<open>'NORMAL' | 'WARNING' | 'CRITICAL'\<close>.\<close>

datatype Health = HEALTH_NORMAL | HEALTH_WARNING | HEALTH_CRITICAL

record FraudCase =
  case_id :: string
  case_narrative :: string
  case_merchant :: string
  case_type :: string
  vectorId :: "string option"

record Transaction =
  tx_id :: string
  tx_timestamp :: string
  amount :: real
  merchant :: string
  merchantId :: string
  narrative :: string
  location :: string
  ip :: string
  zScore :: real
  velocityScore :: real
  signatureMatchScore :: real
  matchedCaseId :: "string option"
  riskLevel :: RiskLevel
  status :: Status

text \<open>
  \<open>Alert.timestamp\<close> is an ISO-8601 string in the source, written by
  \<open>Date.toISOString\<close> and read back by \<open>new Date(s).getTime()\<close>; the field holds the
  instant itself, in milliseconds since the epoch.
\<close>

record Alert =
  alert_id :: string
  severity :: Severity
  title :: string
  description :: string
  alert_timestamp :: int
  related_transaction_id :: "string option"

text \<open>\<open>metrics.ts\<close>: \<open>MetricsSnapshot\<close>.\<close>

record MetricsSnapshot =
  timestamp :: real
  responseTime :: real
  isFraud :: bool

text \<open>
  \<open>DashboardMetrics\<close>. The two percentile fields are \<open>None\<close> where the source yields
  \<open>NaN\<close> (\<open>Math.round\<close> of an out-of-range array read).
\<close>

record DashboardMetrics =
  transactions_today :: nat
  fraud_detected :: nat
  detection_rate :: real
  legitimate_approved :: nat
  pending_review :: nat
  avg_response_time_ms :: real
  max_response_time_ms :: real
  p95_latency_ms :: "real option"
  p99_latency_ms :: "real option"
  throughput_txn_per_sec :: real
  model_accuracy :: real
  model_precision :: real
  model_recall :: real
  false_positive_rate :: real
  false_negative_rate :: real
  active_alerts :: "Alert list"
  system_health :: Health

section \<open>Metrics service\<close>

text \<open>\<open>Math.round\<close>: the nearest integer, a tie going up.\<close>

definition Math_round :: "real \<Rightarrow> real" where
  "Math_round x = real_of_int \<lfloor>x + 1 / 2\<rfloor>"

text \<open>
  \<open>calculatePercentile(values, percentile)\<close>. \<open>sorted[i]\<close> beyond the array is
  \<open>undefined\<close>, and \<open>Math.round(undefined)\<close> is \<open>NaN\<close>: the result \<open>None\<close>.
\<close>

definition calculatePercentile :: "real list \<Rightarrow> real \<Rightarrow> real option" where
  "calculatePercentile values percentile =
     (if length values = 0 then Some 0
      else
        let sorted = sort values;
            index = \<lceil>real (length sorted) * percentile\<rceil> - 1;
            i = nat (max 0 index)
        in if i < length sorted then Some (Math_round (sorted ! i)) else None)"

text \<open>
  \<open>calculateThroughput(metricsHistory)\<close>. \<open>Number(x.toFixed(2))\<close> rounds the double it is
  given, which exact arithmetic does not determine: it is the parameter \<open>fixed2\<close>.
\<close>

definition calculateThroughput :: "(real \<Rightarrow> real) \<Rightarrow> MetricsSnapshot list \<Rightarrow> real" where
  "calculateThroughput fixed2 metricsHistory =
     (if length metricsHistory < 2 then 0
      else
        let sorted = sort_key timestamp metricsHistory;
            timespanSeconds = (timestamp (last sorted) - timestamp (hd sorted)) / 1000
        in if timespanSeconds = 0 then 0
           else fixed2 (real (length metricsHistory) / timespanSeconds))"

text \<open>\<open>determineSystemHealth(detectionRate, falsePositiveRate, avgResponseTime, alerts)\<close>.\<close>

definition determineSystemHealth :: "real \<Rightarrow> real \<Rightarrow> real \<Rightarrow> Alert list \<Rightarrow> Health" where
  "determineSystemHealth detectionRate falsePositiveRate avgResponseTime alerts =
     (let criticalAlerts = length (filter (\<lambda>a. severity a = SEV_CRITICAL) alerts)
      in if criticalAlerts > 5 \<or> falsePositiveRate > 0.3 \<or> avgResponseTime > 5000
            \<or> detectionRate > 0.5
         then HEALTH_CRITICAL
         else if length alerts > 10 \<or> falsePositiveRate > 0.15 \<or> avgResponseTime > 2000
            \<or> detectionRate > 0.3
         then HEALTH_WARNING
         else HEALTH_NORMAL)"

text \<open>The ratio \<open>d > 0 ? n / d : 0\<close> that the model-performance figures share.\<close>

definition ratio_or_zero :: "nat \<Rightarrow> nat \<Rightarrow> real" where
  "ratio_or_zero n d = (if d > 0 then real n / real d else 0)"

text \<open>\<open>Math.max(0, Math.min(1, x))\<close>.\<close>

definition clamp01 :: "real \<Rightarrow> real" where
  "clamp01 x = max 0 (min 1 x)"

text \<open>
  \<open>calculateMetrics(transactions, metricsHistory = [], alerts = [])\<close>; the first argument
  is the \<open>fixed2\<close> of \<open>calculateThroughput\<close>.
\<close>

definition calculateMetrics ::
  "(real \<Rightarrow> real) \<Rightarrow> Transaction list \<Rightarrow> MetricsSnapshot list \<Rightarrow> Alert list
     \<Rightarrow> DashboardMetrics" where
  "calculateMetrics fixed2 transactions metricsHistory alerts =
     (let fraudCases = filter (\<lambda>t. riskLevel t = CRITICAL \<or> status t = BLOCKED) transactions;
          approvedCases = filter (\<lambda>t. status t = ALLOWED) transactions;
          pendingCases = filter (\<lambda>t. status t = PENDING \<or> status t = ANALYZING) transactions;
          detectionRate =
            (if length transactions > 0
             then real (length fraudCases) / real (length transactions) else 0);
          responseTimes = map responseTime metricsHistory;
          avgResponseTime =
            (if length responseTimes > 0
             then Math_round (foldl (+) 0 responseTimes / real (length responseTimes))
             else 0);
          maxResponseTime =
            (if length responseTimes > 0 then Max (set responseTimes) else 0);
          p95Latency = calculatePercentile responseTimes 0.95;
          p99Latency = calculatePercentile responseTimes 0.99;
          throughput = calculateThroughput fixed2 metricsHistory;
          fraudDetected = length fraudCases;
          truePositives = length (filter (\<lambda>t. status t = BLOCKED) fraudCases);
          falsePositives = length (filter (\<lambda>t. status t = ALLOWED) fraudCases);
          falseNegatives = length (filter (\<lambda>t. riskLevel t = CRITICAL) approvedCases);
          trueNegatives = length (filter (\<lambda>t. riskLevel t = LOW) approvedCases);
          precision = ratio_or_zero truePositives (truePositives + falsePositives);
          recall = ratio_or_zero truePositives (truePositives + falseNegatives);
          accuracy =
            (if length transactions > 0
             then real (truePositives + trueNegatives) / real (length transactions) else 0);
          falsePositiveRate = ratio_or_zero falsePositives (falsePositives + trueNegatives);
          falseNegativeRate = ratio_or_zero falseNegatives (falseNegatives + truePositives);
          systemHealth =
            determineSystemHealth detectionRate falsePositiveRate avgResponseTime alerts
      in \<lparr> transactions_today = length transactions,
           fraud_detected = fraudDetected,
           detection_rate = detectionRate,
           legitimate_approved = length approvedCases,
           pending_review = length pendingCases,
           avg_response_time_ms = avgResponseTime,
           max_response_time_ms = maxResponseTime,
           p95_latency_ms = p95Latency,
           p99_latency_ms = p99Latency,
           throughput_txn_per_sec = throughput,
           model_accuracy = clamp01 accuracy,
           model_precision = clamp01 precision,
           model_recall = clamp01 recall,
           false_positive_rate = clamp01 falsePositiveRate,
           false_negative_rate = clamp01 falseNegativeRate,
           active_alerts = alerts,
           system_health = systemHealth \<rparr>)"

text \<open>
  \<open>Array.prototype.slice(start, end)\<close> for integer arguments: a negative index counts
  from the end, both indices are clamped to the array, and \<open>end\<close> may be left out.
\<close>

definition js_slice :: "'a list \<Rightarrow> int \<Rightarrow> int option \<Rightarrow> 'a list" where
  "js_slice xs start end =
     (let n = int (length xs);
          k = (if start < 0 then max (n + start) 0 else min start n);
          e = (case end of None \<Rightarrow> n
               | Some e' \<Rightarrow> if e' < 0 then max (n + e') 0 else min e' n)
      in take (nat (e - k)) (drop (nat k) xs))"

text \<open>
  \<open>recordMetricsSnapshot(history, responseTime, isFraud, maxHistorySize = 1000)\<close>. The
  first argument is the reading of \<open>Date.now()\<close>.
\<close>

definition recordMetricsSnapshot ::
  "real \<Rightarrow> MetricsSnapshot list \<Rightarrow> real \<Rightarrow> bool \<Rightarrow> int \<Rightarrow> MetricsSnapshot list" where
  "recordMetricsSnapshot dateNow history responseTime' isFraud' maxHistorySize =
     (let snapshot = \<lparr> timestamp = dateNow, responseTime = responseTime', isFraud = isFraud' \<rparr>;
          updated = history @ [snapshot]
      in if int (length updated) > maxHistorySize
         then js_slice updated (- maxHistorySize) None
         else updated)"

subsection \<open>Alert generation\<close>

text \<open>
  \<open>Array.prototype.sort(compareFn)\<close> is stable, and for a consistent comparator its
  result is the one stable sorted arrangement: a stable insertion sort, an element going
  before the first one it does not compare greater than.
\<close>

fun insort_by :: "('a \<Rightarrow> 'a \<Rightarrow> int) \<Rightarrow> 'a \<Rightarrow> 'a list \<Rightarrow> 'a list" where
  "insort_by cmp x [] = [x]"
| "insort_by cmp x (y # ys) =
     (if cmp x y \<le> 0 then x # y # ys else y # insort_by cmp x ys)"

definition Array_sort :: "('a \<Rightarrow> 'a \<Rightarrow> int) \<Rightarrow> 'a list \<Rightarrow> 'a list" where
  "Array_sort cmp xs = foldr (insort_by cmp) xs []"

text \<open>\<open>String.prototype.toLowerCase\<close> on ASCII text, and \<open>String.prototype.includes\<close>.\<close>

definition toLowerChar :: "char \<Rightarrow> char" where
  "toLowerChar c =
     (let n = (of_char c :: nat) in if 65 \<le> n \<and> n \<le> 90 then char_of (n + 32) else c)"

definition toLowerCase :: "string \<Rightarrow> string" where
  "toLowerCase s = map toLowerChar s"

fun str_includes :: "string \<Rightarrow> string \<Rightarrow> bool" where
  "str_includes [] pat = (pat = [])"
| "str_includes (c # cs) pat = (prefix pat (c # cs) \<or> str_includes cs pat)"

text \<open>
  What \<open>generateAlerts\<close> takes from the JavaScript runtime: the text of a number in a
  template literal, \<open>Number.prototype.toFixed(1)\<close>, the instant of \<open>new Date()\<close>, and the
  reading of \<open>Date.now()\<close> at each of the six places that build an alert id.
\<close>

record Runtime =
  numberText :: "real \<Rightarrow> string"
  toFixed1 :: "real \<Rightarrow> string"
  newDate :: int
  dateNow :: "nat \<Rightarrow> real"

text \<open>
  The second argument of \<open>generateAlerts\<close> is a \<open>Partial<DashboardMetrics>\<close>, every
  field of which may be missing; these are the three fields the function reads.
\<close>

record PartialMetrics =
  prior_detection_rate :: "real option"
  prior_false_positive_rate :: "real option"
  prior_avg_response_time_ms :: "real option"

text \<open>\<open>x || 0\<close> for a number that may be missing.\<close>

definition or_zero :: "real option \<Rightarrow> real" where
  "or_zero x = (case x of None \<Rightarrow> 0 | Some v \<Rightarrow> v)"

text \<open>The \<open>severityOrder\<close> table of the comparator.\<close>

fun severityOrder :: "Severity \<Rightarrow> int" where
  "severityOrder SEV_CRITICAL = 0"
| "severityOrder SEV_WARNING = 1"
| "severityOrder SEV_INFO = 2"

definition compareAlerts :: "Alert \<Rightarrow> Alert \<Rightarrow> int" where
  "compareAlerts a b =
     (let severityDiff = severityOrder (severity a) - severityOrder (severity b)
      in if severityDiff \<noteq> 0 then severityDiff
         else alert_timestamp b - alert_timestamp a)"

text \<open>The six rules of \<open>generateAlerts\<close>, each the alerts it pushes.\<close>

definition highFraudAlert :: "Runtime \<Rightarrow> PartialMetrics \<Rightarrow> Alert list" where
  "highFraudAlert rt metrics =
     (let detectionRate = or_zero (prior_detection_rate metrics)
      in if detectionRate > 0.1
         then [\<lparr> alert_id = ''ALERT_HIGH_FRAUD_'' @ numberText rt (dateNow rt 0),
                 severity = (if detectionRate > 0.2 then SEV_CRITICAL else SEV_WARNING),
                 title = ''Elevated Fraud Detection Rate'',
                 description = toFixed1 rt (detectionRate * 100)
                   @ ''% of transactions flagged as suspicious in the last hour'',
                 alert_timestamp = newDate rt,
                 related_transaction_id = None \<rparr>]
         else [])"

definition falsePositiveAlert :: "Runtime \<Rightarrow> PartialMetrics \<Rightarrow> Alert list" where
  "falsePositiveAlert rt metrics =
     (let falsePositiveRate = or_zero (prior_false_positive_rate metrics)
      in if falsePositiveRate > 0.2
         then [\<lparr> alert_id = ''ALERT_FALSE_POS_'' @ numberText rt (dateNow rt 1),
                 severity = SEV_WARNING,
                 title = ''High False Positive Rate'',
                 description = ''Model incorrectly flagging ''
                   @ toFixed1 rt (falsePositiveRate * 100) @ ''% of legitimate transactions'',
                 alert_timestamp = newDate rt - 300000,
                 related_transaction_id = None \<rparr>]
         else [])"

definition performanceAlert :: "Runtime \<Rightarrow> PartialMetrics \<Rightarrow> Alert list" where
  "performanceAlert rt metrics =
     (let avgResponseTime = or_zero (prior_avg_response_time_ms metrics)
      in if avgResponseTime > 3000
         then [\<lparr> alert_id = ''ALERT_PERFORMANCE_'' @ numberText rt (dateNow rt 2),
                 severity = (if avgResponseTime > 5000 then SEV_CRITICAL else SEV_WARNING),
                 title = ''System Performance Degradation'',
                 description = ''Average response time is '' @ numberText rt avgResponseTime
                   @ ''ms. Consider scaling infrastructure.'',
                 alert_timestamp = newDate rt - 600000,
                 related_transaction_id = None \<rparr>]
         else [])"

definition highValueAlert :: "Runtime \<Rightarrow> Transaction list \<Rightarrow> Alert list" where
  "highValueAlert rt transactions =
     (case List.find (\<lambda>t. riskLevel t = CRITICAL \<and> amount t > 10000) transactions of
        Some highValueFraud \<Rightarrow>
          [\<lparr> alert_id = ''ALERT_HIGH_VALUE_'' @ numberText rt (dateNow rt 3),
              severity = SEV_CRITICAL,
              title = ''High-Value Fraud Detected'',
              description = ''Critical risk transaction of $''
                @ numberText rt (amount highValueFraud) @ '' detected at ''
                @ merchant highValueFraud,
              alert_timestamp = newDate rt,
              related_transaction_id = Some (tx_id highValueFraud) \<rparr>]
      | None \<Rightarrow> [])"

definition merchantRiskAlert :: "Runtime \<Rightarrow> Transaction list \<Rightarrow> Alert list" where
  "merchantRiskAlert rt transactions =
     (case List.find
             (\<lambda>t. str_includes (toLowerCase (merchant t)) ''crypto''
                  \<or> str_includes (toLowerCase (merchant t)) ''wire''
                  \<or> str_includes (toLowerCase (merchant t)) ''transfer'') transactions of
        Some highRiskMerchant \<Rightarrow>
          [\<lparr> alert_id = ''ALERT_MERCHANT_RISK_'' @ numberText rt (dateNow rt 4),
              severity = SEV_WARNING,
              title = ''High-Risk Merchant Activity'',
              description = ''Transaction with high-risk merchant category detected: ''
                @ merchant highRiskMerchant,
              alert_timestamp = newDate rt - 1200000,
              related_transaction_id = Some (tx_id highRiskMerchant) \<rparr>]
      | None \<Rightarrow> [])"

definition velocityAlert :: "Runtime \<Rightarrow> Transaction list \<Rightarrow> Alert list" where
  "velocityAlert rt transactions =
     (let recentTransactions = js_slice transactions 0 (Some 10)
      in if length recentTransactions \<ge> 5
         then [\<lparr> alert_id = ''ALERT_VELOCITY_'' @ numberText rt (dateNow rt 5),
                 severity = SEV_WARNING,
                 title = ''Abnormal Transaction Velocity'',
                 description = numberText rt (real (length recentTransactions))
                   @ '' transactions in the last few minutes. Possible account compromise.'',
                 alert_timestamp = newDate rt - 180000,
                 related_transaction_id = None \<rparr>]
         else [])"

text \<open>\<open>generateAlerts(transactions, metrics = {})\<close>: the pushes in order, then the sort.\<close>

definition generateAlerts :: "Runtime \<Rightarrow> Transaction list \<Rightarrow> PartialMetrics \<Rightarrow> Alert list" where
  "generateAlerts rt transactions metrics =
     (let alerts = highFraudAlert rt metrics @ falsePositiveAlert rt metrics
            @ performanceAlert rt metrics @ highValueAlert rt transactions
            @ merchantRiskAlert rt transactions @ velocityAlert rt transactions
      in Array_sort compareAlerts alerts)"

section \<open>Document store\<close>

text \<open>\<open>CustomerPolicy\<close> of \<open>types.ts\<close>, with its two string unions.\<close>

datatype RiskTier = TIER_LOW | TIER_MEDIUM | TIER_HIGH

datatype ComplianceStatus = VERIFIED_KYC | PENDING_KYC | FAILED_KYC

record CustomerPolicy =
  policy_id :: string
  user_id :: string
  daily_limit :: real
  monthly_limit :: real
  requires_approval_above :: real
  allowed_countries :: "string list"
  blocked_countries :: "string list"
  max_transactions_per_day :: real
  risk_tier :: RiskTier
  compliance_status :: ComplianceStatus

text \<open>The module's table \<open>customerPolicies\<close>, as \<open>documentStore.ts\<close> initialises it.\<close>

definition customerPolicies :: "CustomerPolicy list" where
  "customerPolicies =
     [\<lparr> policy_id = ''CUST_POL_001'', user_id = ''USER_VIP_001'', daily_limit = 100000,
         monthly_limit = 1000000, requires_approval_above = 50000,
         allowed_countries = [''US'', ''UK'', ''CA'', ''AU'', ''SG''],
         blocked_countries = [''KP'', ''IR'', ''SY''],
         max_transactions_per_day = 100, risk_tier = TIER_LOW,
         compliance_status = VERIFIED_KYC \<rparr>,
      \<lparr> policy_id = ''CUST_POL_002'', user_id = ''USER_STANDARD_001'', daily_limit = 10000,
         monthly_limit = 50000, requires_approval_above = 5000,
         allowed_countries = [''US'', ''CA'', ''UK''],
         blocked_countries = [''KP'', ''IR'', ''SY'', ''CU''],
         max_transactions_per_day = 20, risk_tier = TIER_MEDIUM,
         compliance_status = VERIFIED_KYC \<rparr>,
      \<lparr> policy_id = ''CUST_POL_003'', user_id = ''USER_NEW_001'', daily_limit = 2000,
         monthly_limit = 10000, requires_approval_above = 1000,
         allowed_countries = [''US''],
         blocked_countries = [''KP'', ''IR'', ''SY'', ''CU'', ''VE''],
         max_transactions_per_day = 5, risk_tier = TIER_HIGH,
         compliance_status = PENDING_KYC \<rparr>,
      \<lparr> policy_id = ''CUST_POL_004'', user_id = ''USER_SUSPENDED_001'', daily_limit = 0,
         monthly_limit = 0, requires_approval_above = 0,
         allowed_countries = [],
         blocked_countries = [''*''],
         max_transactions_per_day = 0, risk_tier = TIER_HIGH,
         compliance_status = FAILED_KYC \<rparr>]"

text \<open>
  \<open>getCustomerPolicy(userId)\<close> reads the module's table, which is passed explicitly:
  \<open>undefined\<close> is \<open>None\<close>.
\<close>

definition getCustomerPolicy :: "CustomerPolicy list \<Rightarrow> string \<Rightarrow> CustomerPolicy option" where
  "getCustomerPolicy table userId = List.find (\<lambda>p. user_id p = userId) table"

record ComplianceResult =
  compliant :: bool
  violations :: "string list"

text \<open>
  \<open>checkPolicyCompliance(userId, amount, country)\<close>. The first argument is the text of a
  number in a template literal, the second the module's table. The four pushes are
  written as the list each one adds.
\<close>

definition checkPolicyCompliance ::
  "(real \<Rightarrow> string) \<Rightarrow> CustomerPolicy list \<Rightarrow> string \<Rightarrow> real \<Rightarrow> string \<Rightarrow> ComplianceResult" where
  "checkPolicyCompliance numText table userId amount' country =
     (case getCustomerPolicy table userId of
        None \<Rightarrow> \<lparr> compliant = False, violations = [''Customer policy not found''] \<rparr>
      | Some policy \<Rightarrow>
          let violations0 = [];
              violations1 =
                (if amount' > daily_limit policy
                 then violations0 @ [''Exceeds daily limit of $'' @ numText (daily_limit policy)]
                 else violations0);
              violations2 =
                (if country \<in> set (blocked_countries policy)
                 then violations1 @ [''Transaction to blocked country: '' @ country]
                 else violations1);
              violations3 =
                (if length (allowed_countries policy) > 0
                    \<and> country \<notin> set (allowed_countries policy)
                 then violations2 @ [''Country '' @ country @ '' not in allowed list'']
                 else violations2);
              violations4 =
                (if compliance_status policy = FAILED_KYC
                 then violations3 @ [''Customer failed KYC verification'']
                 else violations3)
          in \<lparr> compliant = (length violations4 = 0), violations = violations4 \<rparr>)"

section \<open>Application state\<close>

text \<open>\<open>UserProfile\<close> of \<open>types.ts\<close>.\<close>

record UserProfile =
  history :: "real list"
  mean :: real
  stdDev :: real

datatype ToastType = success | info

record ToastMessage =
  toast_id :: string
  toast_title :: string
  toast_description :: string
  toast_type :: ToastType

text \<open>
  The state the \<open>App\<close> component holds: its \<open>useState\<close> cells and the two refs
  \<open>metricsHistoryRef.current\<close> and \<open>historyRef.current\<close>.
\<close>

record AppState =
  transactions :: "Transaction list"
  knowledgeBase :: "FraudCase list"
  selectedTxId :: "string option"
  isPaused :: bool
  toasts :: "ToastMessage list"
  metricsHistoryRef :: "MetricsSnapshot list"
  historyRef :: "real list"
  userProfile :: UserProfile

text \<open>The seed of \<open>useState(INITIAL_KNOWLEDGE_BASE)\<close>, from \<open>constants.tsx\<close>.\<close>

definition INITIAL_KNOWLEDGE_BASE :: "FraudCase list" where
  "INITIAL_KNOWLEDGE_BASE =
     [\<lparr> case_id = ''CASE_001'',
         case_narrative = ''Urgent transfer for medical supplies to overseas vendor'',
         case_merchant = ''Medi-Global'',
         case_type = ''APP Fraud (Authorized Push Payment)'', vectorId = None \<rparr>,
      \<lparr> case_id = ''CASE_002'',
         case_narrative = ''Refund verification small deposit'',
         case_merchant = ''TechRefund Support'',
         case_type = ''Refund Scam'', vectorId = None \<rparr>,
      \<lparr> case_id = ''CASE_003'',
         case_narrative = ''Payment for winning lottery tax clearance'',
         case_merchant = ''Lottery Commission'',
         case_type = ''Advance Fee Fraud'', vectorId = None \<rparr>]"

text \<open>
  \<open>addToast(title, description, type)\<close>; the id, drawn from \<open>Math.random()\<close>, is the first
  argument.
\<close>

definition addToast :: "string \<Rightarrow> string \<Rightarrow> string \<Rightarrow> ToastType \<Rightarrow> AppState \<Rightarrow> AppState" where
  "addToast rid t d ty st =
     st\<lparr> toasts := toasts st
           @ [\<lparr> toast_id = rid, toast_title = t, toast_description = d, toast_type = ty \<rparr>] \<rparr>"

text \<open>
  The callback of the pipeline's \<open>setInterval\<close>. \<open>generateTransaction\<close> and
  \<open>calculateStats\<close> belong to \<open>services/simulation\<close>: the transaction just scored and the
  measured response time are arguments, \<open>calculateStats\<close> is a parameter giving the mean
  and the standard deviation, and \<open>now\<close> is the reading of \<open>Date.now()\<close>.
\<close>

definition pipelineTick ::
  "(real list \<Rightarrow> real \<times> real) \<Rightarrow> real \<Rightarrow> Transaction \<Rightarrow> real \<Rightarrow> AppState \<Rightarrow> AppState" where
  "pipelineTick calculateStats now newTx responseTime' st =
     (let st1 = st\<lparr> transactions := js_slice (newTx # transactions st) 0 (Some 50) \<rparr>;
          st2 = st1\<lparr> metricsHistoryRef :=
                  recordMetricsSnapshot now (metricsHistoryRef st1) responseTime'
                    (riskLevel newTx = CRITICAL) 1000 \<rparr>
      in if riskLevel newTx = LOW
         then
           let newHistory = js_slice (historyRef st2 @ [amount newTx]) (- 50) None
           in st2\<lparr> historyRef := newHistory,
                   userProfile := \<lparr> history = newHistory,
                                    mean = fst (calculateStats newHistory),
                                    stdDev = snd (calculateStats newHistory) \<rparr> \<rparr>
         else st2)"

text \<open>The forced anomaly type of \<open>generateTransaction\<close>'s third argument.\<close>

datatype ForcedType = BEHAVIORAL | SIGNATURE

fun forcedTypeText :: "ForcedType \<Rightarrow> string" where
  "forcedTypeText BEHAVIORAL = ''BEHAVIORAL''"
| "forcedTypeText SIGNATURE = ''SIGNATURE''"

text \<open>
  \<open>triggerFraudEvent\<close>. The type drawn from \<open>Math.random()\<close>, the transaction the scorer
  returns for it and the toast's id are arguments.
\<close>

definition triggerFraudEvent :: "string \<Rightarrow> ForcedType \<Rightarrow> Transaction \<Rightarrow> AppState \<Rightarrow> AppState" where
  "triggerFraudEvent rid forced newTx st =
     addToast rid ''Simulation Triggered''
       (''Injected a '' @ forcedTypeText forced @ '' anomaly for analysis. Stream paused.'') info
       (st\<lparr> transactions := newTx # transactions st,
            selectedTxId := Some (tx_id newTx),
            isPaused := True \<rparr>)"

text \<open>\<open>handleAddToKnowledgeBase(tx, notes)\<close>; the toast's id is the first argument.\<close>

definition handleAddToKnowledgeBase :: "string \<Rightarrow> Transaction \<Rightarrow> string \<Rightarrow> AppState \<Rightarrow> AppState" where
  "handleAddToKnowledgeBase rid tx notes st =
     (let newCase = \<lparr> case_id = ''CASE_'' @ tx_id tx,
                       case_narrative = narrative tx,
                       case_merchant = merchant tx,
                       case_type = ''Confirmed Fraud (Analyst Feedback)'',
                       vectorId = Some ''pending_vectorization'' \<rparr>
      in addToast rid ''Feedback Loop Active''
           (''Transaction '' @ tx_id tx
              @ '' added to Knowledge Base. Future similar patterns will be flagged.'') success
           (st\<lparr> knowledgeBase := knowledgeBase st @ [newCase] \<rparr>))"

section \<open>Risk scorer\<close>

text \<open>
  Modelled from the spec: \<open>generateTransaction\<close> of \<open>services/simulation\<close>, which the
  application imports and whose source is not part of the repository's files. Section 4.1
  of the specification gives it as \<open>score(profile, knowledgeBase, forcedType?)\<close>: it fails
  with \<open>InvalidProfile\<close> on an empty history; the amount, the narrative and merchant, the
  signature match and the velocity score come from the random source (steps 1, 3 and 4);
  \<open>zScore = (amount - mean) / max(stdDev, \<epsilon>)\<close> (step 2); the risk level follows the
  ordered decision table (step 5); the status starts as PENDING (step 6).
\<close>

datatype ScoreError = InvalidProfile

text \<open>Modelled from the spec: the decision table of step 5, evaluated in order.\<close>

definition decideRiskLevel :: "real \<Rightarrow> real \<Rightarrow> RiskLevel" where
  "decideRiskLevel z s =
     (if \<bar>z\<bar> > 3 \<or> s \<ge> 0.85 then CRITICAL
      else if \<bar>z\<bar> > 1.5 \<or> s \<ge> 0.5 then MEDIUM
      else LOW)"

text \<open>
  Modelled from the spec: the scorer. \<open>draw\<close> is the random source, fixed for the call: the
  transaction as steps 1, 3 and 4 draw it for this profile, knowledge base and forced
  type. \<open>eps\<close> is the \<open>\<epsilon>\<close> of step 2.
\<close>

definition generateTransaction ::
  "real \<Rightarrow> (UserProfile \<Rightarrow> FraudCase list \<Rightarrow> ForcedType option \<Rightarrow> Transaction)
     \<Rightarrow> UserProfile \<Rightarrow> FraudCase list \<Rightarrow> ForcedType option \<Rightarrow> ScoreError + Transaction" where
  "generateTransaction eps draw profile kb forcedType =
     (if history profile = [] then Inl InvalidProfile
      else
        let drawn = draw profile kb forcedType;
            z = (amount drawn - mean profile) / max (stdDev profile) eps
        in Inr (drawn\<lparr> zScore := z,
                       riskLevel := decideRiskLevel z (signatureMatchScore drawn),
                       status := PENDING \<rparr>))"

section \<open>Sample inputs\<close>

text \<open>Concrete values on which the theorems below are instantiated.\<close>

definition sample_tx :: "string \<Rightarrow> real \<Rightarrow> string \<Rightarrow> real \<Rightarrow> RiskLevel \<Rightarrow> Status \<Rightarrow> Transaction" where
  "sample_tx i amt m z r s =
     \<lparr> tx_id = i, tx_timestamp = ''2024-01-01T00:00:00.000Z'', amount = amt, merchant = m,
       merchantId = ''MERCH_1'', narrative = ''Card payment'', location = ''US'',
       ip = ''10.0.0.1'', zScore = z, velocityScore = 0, signatureMatchScore = 0,
       matchedCaseId = None, riskLevel = r, status = s \<rparr>"

text \<open>The state \<open>App\<close> starts in, with a profile over the seed history.\<close>

definition sample_state :: AppState where
  "sample_state =
     \<lparr> transactions = [], knowledgeBase = INITIAL_KNOWLEDGE_BASE, selectedTxId = None,
       isPaused = False, toasts = [], metricsHistoryRef = [],
       historyRef = [45, 60, 55, 12, 40, 50, 48],
       userProfile = \<lparr> history = [45, 60, 55, 12, 40, 50, 48], mean = 310 / 7, stdDev = 16 \<rparr> \<rparr>"

text \<open>Ten transactions, three of them CRITICAL and BLOCKED, none else CRITICAL or BLOCKED.\<close>

definition sample_transactions :: "Transaction list" where
  "sample_transactions =
     [sample_tx ''TX_1'' 45 ''Grocer'' 0 LOW ALLOWED,
      sample_tx ''TX_2'' 20000 ''Crypto Exchange'' 1247 CRITICAL BLOCKED,
      sample_tx ''TX_3'' 60 ''Cafe'' 1 LOW PENDING,
      sample_tx ''TX_4'' 75 ''Wire Transfer Co'' 2 MEDIUM FLAGGED,
      sample_tx ''TX_5'' 900 ''Jeweller'' 53 CRITICAL BLOCKED,
      sample_tx ''TX_6'' 50 ''Grocer'' 0 LOW ALLOWED,
      sample_tx ''TX_7'' 700 ''Electronics'' 41 CRITICAL BLOCKED,
      sample_tx ''TX_8'' 48 ''Cafe'' 0 LOW ANALYZING,
      sample_tx ''TX_9'' 55 ''Bookshop'' 1 LOW ALLOWED,
      sample_tx ''TX_10'' 40 ''Grocer'' 0 LOW PENDING]"

text \<open>Ten snapshots whose response times are 10, 20, ..., 100, out of order.\<close>

definition sample_history :: "MetricsSnapshot list" where
  "sample_history =
     map (\<lambda>(t, r). \<lparr> timestamp = t, responseTime = r, isFraud = False \<rparr>)
       [(1000, 30), (3500, 10), (6000, 100), (8500, 20), (11000, 50),
        (13500, 40), (16000, 90), (18500, 60), (21000, 80), (23500, 70)]"

definition sample_runtime :: Runtime where
  "sample_runtime =
     \<lparr> numberText = (\<lambda>x. ''n''), toFixed1 = (\<lambda>x. ''n.n''), newDate = 1700000000000,
       dateNow = (\<lambda>k. 1700000000000) \<rparr>"

text \<open>A rounding to two decimals, on exact values, for the \<open>fixed2\<close> parameter.\<close>

definition sample_fixed2 :: "real \<Rightarrow> real" where
  "sample_fixed2 x = real_of_int \<lfloor>x * 100 + 1 / 2\<rfloor> / 100"

definition sample_metrics :: PartialMetrics where
  "sample_metrics =
     \<lparr> prior_detection_rate = Some 0.3, prior_false_positive_rate = Some 0.25,
       prior_avg_response_time_ms = Some 3500 \<rparr>"

text \<open>
  Prior metrics under which a CRITICAL alert is older than a WARNING one: the performance
  alert is CRITICAL and dated ten minutes back, the detection-rate alert is a WARNING
  dated now.
\<close>

definition sample_metrics_slow :: PartialMetrics where
  "sample_metrics_slow =
     \<lparr> prior_detection_rate = Some 0.15, prior_false_positive_rate = Some 0.25,
       prior_avg_response_time_ms = Some 6000 \<rparr>"

definition sample_alert :: "Severity \<Rightarrow> int \<Rightarrow> Alert" where
  "sample_alert s t =
     \<lparr> alert_id = ''ALERT_1'', severity = s, title = ''Sample'', description = ''Sample alert'',
       alert_timestamp = t, related_transaction_id = None \<rparr>"

section \<open>Verified properties\<close>

subsection \<open>Array helpers\<close>

lemma js_slice_take: "0 \<le> m \<Longrightarrow> js_slice xs 0 (Some m) = take (nat m) xs"
  by (auto simp: js_slice_def Let_def min_def)

lemma js_slice_last: "0 < m \<Longrightarrow> js_slice xs (- m) None = drop (length xs - nat m) xs"
  by (auto simp: js_slice_def Let_def max_def nat_diff_distrib')

lemma mset_insort_by: "mset (insort_by cmp x ys) = add_mset x (mset ys)"
  by (induction ys) auto

lemma mset_Array_sort: "mset (Array_sort cmp xs) = mset xs"
  unfolding Array_sort_def by (induction xs) (auto simp: mset_insort_by)

lemma set_Array_sort: "set (Array_sort cmp xs) = set xs"
  using mset_Array_sort[of cmp xs] by (metis set_mset_mset)

lemma set_insort_by: "set (insort_by cmp x ys) = insert x (set ys)"
  using mset_insort_by[of cmp x ys] by (metis set_mset_mset set_mset_add_mset_insert)

text \<open>
  Under a comparator that is total and transitive, read as \<open>cmp a b \<le> 0\<close>, the sort
  returns a list that is sorted for it.
\<close>

lemma sorted_insort_by:
  assumes total: "\<And>a b. cmp a b \<le> 0 \<or> cmp b a \<le> 0"
    and trans: "\<And>a b c. cmp a b \<le> 0 \<Longrightarrow> cmp b c \<le> 0 \<Longrightarrow> cmp a c \<le> 0"
    and "sorted_wrt (\<lambda>a b. cmp a b \<le> 0) ys"
  shows "sorted_wrt (\<lambda>a b. cmp a b \<le> 0) (insort_by cmp x ys)"
  using assms(3)
proof (induction ys)
  case Nil
  then show ?case by simp
next
  case (Cons y ys)
  show ?case
  proof (cases "cmp x y \<le> 0")
    case True
    then have "\<forall>z \<in> set ys. cmp x z \<le> 0"
      using Cons.prems trans by auto
    then show ?thesis using True Cons.prems by simp
  next
    case False
    then have yx: "cmp y x \<le> 0" using total by blast
    have "sorted_wrt (\<lambda>a b. cmp a b \<le> 0) (insort_by cmp x ys)"
      using Cons by simp
    then show ?thesis using False yx Cons.prems by (simp add: set_insort_by)
  qed
qed

lemma sorted_Array_sort:
  assumes total: "\<And>a b. cmp a b \<le> 0 \<or> cmp b a \<le> 0"
    and trans: "\<And>a b c. cmp a b \<le> 0 \<Longrightarrow> cmp b c \<le> 0 \<Longrightarrow> cmp a c \<le> 0"
  shows "sorted_wrt (\<lambda>a b. cmp a b \<le> 0) (Array_sort cmp xs)"
  unfolding Array_sort_def
proof (induction xs)
  case Nil
  then show ?case by simp
next
  case (Cons x xs)
  then show ?case using sorted_insort_by[OF total trans] by simp
qed

lemma distinct_map_mset:
  assumes "mset xs = mset ys"
  shows "distinct (map f xs) = distinct (map f ys)"
proof -
  have "mset (map f xs) = mset (map f ys)" using assms by simp
  then show ?thesis by (rule mset_eq_imp_distinct_iff)
qed

lemma distinct_map_pair:
  assumes "distinct (map f xs)"
  shows "distinct (map (\<lambda>a. (f a, g a)) xs)"
proof -
  have "distinct xs" "inj_on f (set xs)" using assms by (auto simp: distinct_map)
  moreover have "inj_on (\<lambda>a. (f a, g a)) (set xs)"
    using \<open>inj_on f (set xs)\<close> by (auto simp: inj_on_def)
  ultimately show ?thesis by (simp add: distinct_map)
qed

lemma distinct_map_snoc:
  "distinct (map f (xs @ [y])) = (distinct (map f xs) \<and> (\<forall>c \<in> set xs. f c \<noteq> f y))"
  by (induction xs) auto

lemma length_filter_mset:
  assumes "mset xs = mset ys"
  shows "length (filter P xs) = length (filter P ys)"
proof -
  have "filter_mset P (mset xs) = filter_mset P (mset ys)" using assms by simp
  then have "mset (filter P xs) = mset (filter P ys)" by simp
  then show ?thesis by (rule mset_eq_length)
qed

subsection \<open>Risk scorer\<close>

text \<open>
  C1. Every transaction the scorer returns carries the risk level that the ordered
  decision table gives for the \<open>zScore\<close> and \<open>signatureMatchScore\<close> of that same
  transaction: CRITICAL if \<open>|zScore| > 3\<close> or \<open>signatureMatchScore \<ge> 0.85\<close>, else MEDIUM
  if \<open>|zScore| > 1.5\<close> or \<open>signatureMatchScore \<ge> 0.5\<close>, else LOW. On a profile with a
  non-empty history the scorer does return a transaction.
\<close>

theorem generateTransaction_riskLevel_table:
  "(history profile \<noteq> [] \<longrightarrow>
      (\<exists>tx. generateTransaction eps draw profile kb forcedType = Inr tx))
   \<and> (\<forall>tx. generateTransaction eps draw profile kb forcedType = Inr tx \<longrightarrow>
        riskLevel tx =
          (if \<bar>zScore tx\<bar> > 3 \<or> signatureMatchScore tx \<ge> 0.85 then CRITICAL
           else if \<bar>zScore tx\<bar> > 1.5 \<or> signatureMatchScore tx \<ge> 0.5 then MEDIUM
           else LOW))"
  by (auto simp: generateTransaction_def decideRiskLevel_def Let_def)

theorem generateTransaction_riskLevel_table_witness:
  "history (userProfile sample_state) \<noteq> []
   \<and> generateTransaction (1 / 100) (\<lambda>p k f. sample_tx ''TX_5'' 900 ''Jeweller'' 0 LOW PENDING)
        (userProfile sample_state) INITIAL_KNOWLEDGE_BASE (Some BEHAVIORAL)
       = Inr (sample_tx ''TX_5'' 900 ''Jeweller'' (2995 / 56) CRITICAL PENDING)
   \<and> riskLevel (sample_tx ''TX_5'' 900 ''Jeweller'' (2995 / 56) CRITICAL PENDING) = CRITICAL
   \<and> \<bar>zScore (sample_tx ''TX_5'' 900 ''Jeweller'' (2995 / 56) CRITICAL PENDING)\<bar> > 3"
proof -
  have h: "history (userProfile sample_state) \<noteq> []"
    by (simp add: sample_state_def)
  have g: "generateTransaction (1 / 100) (\<lambda>p k f. sample_tx ''TX_5'' 900 ''Jeweller'' 0 LOW PENDING)
        (userProfile sample_state) INITIAL_KNOWLEDGE_BASE (Some BEHAVIORAL)
       = Inr (sample_tx ''TX_5'' 900 ''Jeweller'' (2995 / 56) CRITICAL PENDING)"
    by (simp add: generateTransaction_def decideRiskLevel_def Let_def sample_state_def
        sample_tx_def)
  have z: "\<bar>zScore (sample_tx ''TX_5'' 900 ''Jeweller'' (2995 / 56) CRITICAL PENDING)\<bar> > 3"
    by (simp add: sample_tx_def)
  have "riskLevel (sample_tx ''TX_5'' 900 ''Jeweller'' (2995 / 56) CRITICAL PENDING) = CRITICAL"
    using generateTransaction_riskLevel_table[of "userProfile sample_state" "1 / 100"
        "\<lambda>p k f. sample_tx ''TX_5'' 900 ''Jeweller'' 0 LOW PENDING" INITIAL_KNOWLEDGE_BASE
        "Some BEHAVIORAL"] g z
    by simp
  then show ?thesis using h g z by blast
qed

subsection \<open>Metrics aggregation\<close>

lemma detection_rate_eq:
  "detection_rate (calculateMetrics fx txs hist alerts) =
     (if txs = [] then 0
      else real (length (filter (\<lambda>t. riskLevel t = CRITICAL \<or> status t = BLOCKED) txs))
           / real (length txs))"
  by (simp add: calculateMetrics_def Let_def)

lemma detection_rate_perm:
  assumes "mset txs' = mset txs"
  shows "detection_rate (calculateMetrics fx txs' hist alerts)
           = detection_rate (calculateMetrics fx txs hist alerts)"
proof -
  have l: "length txs' = length txs" using assms by (rule mset_eq_length)
  have e: "(txs' = []) = (txs = [])" using l by auto
  show ?thesis
    unfolding detection_rate_eq using l e length_filter_mset[OF assms] by simp
qed

lemma detection_rate_three_of_ten:
  assumes "length txs = 10"
    and "length (filter (\<lambda>t. riskLevel t = CRITICAL \<and> status t = BLOCKED) txs) = 3"
    and "\<forall>t \<in> set txs. riskLevel t = CRITICAL \<or> status t = BLOCKED
              \<longrightarrow> riskLevel t = CRITICAL \<and> status t = BLOCKED"
  shows "detection_rate (calculateMetrics fx txs hist alerts) = 0.3"
proof -
  have "filter (\<lambda>t. riskLevel t = CRITICAL \<or> status t = BLOCKED) txs
      = filter (\<lambda>t. riskLevel t = CRITICAL \<and> status t = BLOCKED) txs"
    by (rule filter_cong[OF refl]) (use assms(3) in blast)
  moreover have "txs \<noteq> []" using assms(1) by auto
  ultimately show ?thesis unfolding detection_rate_eq using assms(1,2) by simp
qed

text \<open>
  C2. For every list of transactions, snapshot log and alert list, \<open>calculateMetrics\<close>
  returns as \<open>detection_rate\<close> the number of transactions that are CRITICAL or BLOCKED
  divided by the number of transactions, and 0 for the empty list; the value is the same
  for every permutation of the transaction list; ten transactions of which exactly three
  are CRITICAL and BLOCKED, no other being CRITICAL or BLOCKED, give 0.3.
\<close>

theorem calculateMetrics_detection_rate:
  "detection_rate (calculateMetrics fx txs hist alerts) =
     (if txs = [] then 0
      else real (length (filter (\<lambda>t. riskLevel t = CRITICAL \<or> status t = BLOCKED) txs))
           / real (length txs))
   \<and> (\<forall>txs'. mset txs' = mset txs \<longrightarrow>
         detection_rate (calculateMetrics fx txs' hist alerts)
           = detection_rate (calculateMetrics fx txs hist alerts))
   \<and> (length txs = 10
        \<and> length (filter (\<lambda>t. riskLevel t = CRITICAL \<and> status t = BLOCKED) txs) = 3
        \<and> (\<forall>t \<in> set txs. riskLevel t = CRITICAL \<or> status t = BLOCKED
              \<longrightarrow> riskLevel t = CRITICAL \<and> status t = BLOCKED)
       \<longrightarrow> detection_rate (calculateMetrics fx txs hist alerts) = 0.3)"
  using detection_rate_eq detection_rate_perm detection_rate_three_of_ten by blast

theorem calculateMetrics_detection_rate_witness:
  "length sample_transactions = 10
   \<and> length (filter (\<lambda>t. riskLevel t = CRITICAL \<and> status t = BLOCKED) sample_transactions) = 3
   \<and> mset (rev sample_transactions) = mset sample_transactions
   \<and> detection_rate (calculateMetrics sample_fixed2 sample_transactions sample_history []) = 0.3
   \<and> detection_rate (calculateMetrics sample_fixed2 (rev sample_transactions) sample_history []) = 0.3"
proof -
  note t = calculateMetrics_detection_rate[of sample_fixed2 sample_transactions sample_history "[]"]
  have l: "length sample_transactions = 10"
    by (simp add: sample_transactions_def)
  have f: "length (filter (\<lambda>t. riskLevel t = CRITICAL \<and> status t = BLOCKED)
              sample_transactions) = 3"
    by (simp add: sample_transactions_def sample_tx_def)
  have o: "\<forall>t \<in> set sample_transactions. riskLevel t = CRITICAL \<or> status t = BLOCKED
              \<longrightarrow> riskLevel t = CRITICAL \<and> status t = BLOCKED"
    by (simp add: sample_transactions_def sample_tx_def)
  have m: "mset (rev sample_transactions) = mset sample_transactions"
    by simp
  have d: "detection_rate (calculateMetrics sample_fixed2 sample_transactions sample_history []) = 0.3"
    using t[THEN conjunct2, THEN conjunct2] l f o by blast
  have "detection_rate (calculateMetrics sample_fixed2 (rev sample_transactions) sample_history [])
      = detection_rate (calculateMetrics sample_fixed2 sample_transactions sample_history [])"
    using t[THEN conjunct2, THEN conjunct1] m by blast
  then show ?thesis using l f m d by simp
qed

lemma percentile_index:
  assumes "0 < n" "0 < p" "p \<le> 1"
  shows "0 \<le> \<lceil>real n * p\<rceil> - 1" "nat (\<lceil>real n * p\<rceil> - 1) < n"
proof -
  have "0 < real n * p" using assms by simp
  then have "0 < \<lceil>real n * p\<rceil>" by (simp add: ceiling_less_iff)
  then show "0 \<le> \<lceil>real n * p\<rceil> - 1" by simp
  have "real n * p \<le> real n" using assms by (simp add: mult_left_le)
  then have "\<lceil>real n * p\<rceil> \<le> int n" by (simp add: ceiling_le_iff)
  then show "nat (\<lceil>real n * p\<rceil> - 1) < n" using assms by linarith
qed

lemma calculatePercentile_nearest_rank:
  assumes "values \<noteq> []" "0 < p" "p \<le> 1"
  shows "calculatePercentile values p
       = Some (real_of_int (round (sort values ! nat (\<lceil>real (length values) * p\<rceil> - 1))))"
  using percentile_index[of "length values" p] assms
  by (simp add: calculatePercentile_def Let_def Math_round_def round_def max_def)

lemma calculatePercentile_empty: "calculatePercentile [] p = Some 0"
  by (simp add: calculatePercentile_def)

lemma calculatePercentile_ten:
  "calculatePercentile [10, 20, 30, 40, 50, 60, 70, 80, 90, 100] 0.95 = Some 100"
  "calculatePercentile [10, 20, 30, 40, 50, 60, 70, 80, 90, 100] 0.99 = Some 100"
  by (simp_all add: calculatePercentile_def Let_def Math_round_def)

lemma percentile_fields:
  "p95_latency_ms (calculateMetrics fx txs hist alerts)
     = calculatePercentile (map responseTime hist) 0.95"
  "p99_latency_ms (calculateMetrics fx txs hist alerts)
     = calculatePercentile (map responseTime hist) 0.99"
  by (simp_all add: calculateMetrics_def Let_def)

text \<open>
  C3. For every non-empty snapshot log, the \<open>p95\<close> and \<open>p99\<close> latencies that
  \<open>calculateMetrics\<close> returns are the nearest-rank percentiles of the response times: the
  response times sorted ascending, the element at index \<open>ceil(n * p) - 1\<close> (an index
  inside the list), rounded to the nearest integer. Both are 0 for the empty log, and for
  the response times 10, 20, ..., 100 both are 100.
\<close>

theorem calculateMetrics_percentiles:
  "(hist \<noteq> [] \<longrightarrow>
      0 \<le> \<lceil>real (length hist) * 0.95\<rceil> - 1
      \<and> nat (\<lceil>real (length hist) * 0.95\<rceil> - 1) < length hist
      \<and> 0 \<le> \<lceil>real (length hist) * 0.99\<rceil> - 1
      \<and> nat (\<lceil>real (length hist) * 0.99\<rceil> - 1) < length hist
      \<and> p95_latency_ms (calculateMetrics fx txs hist alerts)
          = Some (real_of_int (round (sort (map responseTime hist)
                ! nat (\<lceil>real (length hist) * 0.95\<rceil> - 1))))
      \<and> p99_latency_ms (calculateMetrics fx txs hist alerts)
          = Some (real_of_int (round (sort (map responseTime hist)
                ! nat (\<lceil>real (length hist) * 0.99\<rceil> - 1)))))
   \<and> (hist = [] \<longrightarrow>
        p95_latency_ms (calculateMetrics fx txs hist alerts) = Some 0
        \<and> p99_latency_ms (calculateMetrics fx txs hist alerts) = Some 0)
   \<and> (map responseTime hist = [10, 20, 30, 40, 50, 60, 70, 80, 90, 100] \<longrightarrow>
        p95_latency_ms (calculateMetrics fx txs hist alerts) = Some 100
        \<and> p99_latency_ms (calculateMetrics fx txs hist alerts) = Some 100)"
proof (intro conjI impI)
  assume ne: "hist \<noteq> []"
  then have n: "0 < length hist" by simp
  show "0 \<le> \<lceil>real (length hist) * 0.95\<rceil> - 1"
    using percentile_index(1)[OF n, of "0.95"] by simp
  show "nat (\<lceil>real (length hist) * 0.95\<rceil> - 1) < length hist"
    using percentile_index(2)[OF n, of "0.95"] by simp
  show "0 \<le> \<lceil>real (length hist) * 0.99\<rceil> - 1"
    using percentile_index(1)[OF n, of "0.99"] by simp
  show "nat (\<lceil>real (length hist) * 0.99\<rceil> - 1) < length hist"
    using percentile_index(2)[OF n, of "0.99"] by simp
  have m: "map responseTime hist \<noteq> []" using ne by simp
  show "p95_latency_ms (calculateMetrics fx txs hist alerts)
          = Some (real_of_int (round (sort (map responseTime hist)
                ! nat (\<lceil>real (length hist) * 0.95\<rceil> - 1))))"
    unfolding percentile_fields using calculatePercentile_nearest_rank[OF m, of "0.95"] by simp
  show "p99_latency_ms (calculateMetrics fx txs hist alerts)
          = Some (real_of_int (round (sort (map responseTime hist)
                ! nat (\<lceil>real (length hist) * 0.99\<rceil> - 1))))"
    unfolding percentile_fields using calculatePercentile_nearest_rank[OF m, of "0.99"] by simp
next
  assume "hist = []"
  then show "p95_latency_ms (calculateMetrics fx txs hist alerts) = Some 0"
    and "p99_latency_ms (calculateMetrics fx txs hist alerts) = Some 0"
    unfolding percentile_fields by (simp_all add: calculatePercentile_empty)
next
  assume "map responseTime hist = [10, 20, 30, 40, 50, 60, 70, 80, 90, 100]"
  then show "p95_latency_ms (calculateMetrics fx txs hist alerts) = Some 100"
    and "p99_latency_ms (calculateMetrics fx txs hist alerts) = Some 100"
    unfolding percentile_fields by (simp_all only: calculatePercentile_ten)
qed

theorem calculateMetrics_percentiles_witness:
  "sample_history \<noteq> []
   \<and> sort (map responseTime sample_history) = [10, 20, 30, 40, 50, 60, 70, 80, 90, 100]
   \<and> p95_latency_ms (calculateMetrics sample_fixed2 sample_transactions sample_history []) = Some 100
   \<and> p99_latency_ms (calculateMetrics sample_fixed2 sample_transactions sample_history []) = Some 100"
proof -
  note t = calculateMetrics_percentiles[of sample_history sample_fixed2 sample_transactions "[]",
      THEN conjunct1]
  have ne: "sample_history \<noteq> []" by (simp add: sample_history_def)
  have l: "length sample_history = 10" by (simp add: sample_history_def)
  have s: "sort (map responseTime sample_history) = [10, 20, 30, 40, 50, 60, 70, 80, 90, 100]"
    by (simp add: sample_history_def)
  have i: "nat (\<lceil>real (10::nat) * 0.95\<rceil> - 1) = 9" "nat (\<lceil>real (10::nat) * 0.99\<rceil> - 1) = 9"
    by simp_all
  have "p95_latency_ms (calculateMetrics sample_fixed2 sample_transactions sample_history []) = Some 100"
    "p99_latency_ms (calculateMetrics sample_fixed2 sample_transactions sample_history []) = Some 100"
    using t ne by (simp_all add: l s i)
  then show ?thesis using ne s by blast
qed

subsection \<open>System health classifier\<close>


text \<open>
  C4. \<open>determineSystemHealth\<close> returns CRITICAL exactly when more than five alerts are
  CRITICAL, or the false-positive rate is above 0.30, or the average latency is above
  5000 ms, or the detection rate is above 0.50; failing that it returns WARNING exactly
  when there are more than ten alerts, or the false-positive rate is above 0.15, or the
  average latency is above 2000 ms, or the detection rate is above 0.30; failing both it
  returns NORMAL. The first tier that matches wins.
\<close>

theorem determineSystemHealth_tiers:
  "(determineSystemHealth dr fpr avg alerts = HEALTH_CRITICAL) =
     (length (filter (\<lambda>a. severity a = SEV_CRITICAL) alerts) > 5 \<or> fpr > 0.30 \<or> avg > 5000
        \<or> dr > 0.50)
   \<and> (determineSystemHealth dr fpr avg alerts = HEALTH_WARNING) =
     ((length alerts > 10 \<or> fpr > 0.15 \<or> avg > 2000 \<or> dr > 0.30)
      \<and> \<not> (length (filter (\<lambda>a. severity a = SEV_CRITICAL) alerts) > 5 \<or> fpr > 0.30
             \<or> avg > 5000 \<or> dr > 0.50))
   \<and> (determineSystemHealth dr fpr avg alerts = HEALTH_NORMAL) =
     (\<not> (length alerts > 10 \<or> fpr > 0.15 \<or> avg > 2000 \<or> dr > 0.30)
      \<and> \<not> (length (filter (\<lambda>a. severity a = SEV_CRITICAL) alerts) > 5 \<or> fpr > 0.30
             \<or> avg > 5000 \<or> dr > 0.50))"
  by (simp add: determineSystemHealth_def Let_def)

subsection \<open>Snapshot log\<close>

text \<open>
  C8. For every snapshot log, response time and fraud flag, \<open>recordMetricsSnapshot\<close>,
  called with its default capacity of 1000, returns the log with one new entry at the
  end, carrying the given response time, the fraud flag and the current time, cut down to
  its most recent 1000 entries; the length of the result is \<open>min(old length + 1, 1000)\<close>.
\<close>

theorem recordMetricsSnapshot_fifo:
  "recordMetricsSnapshot now hist rt flag 1000 =
     (let updated = hist @ [\<lparr> timestamp = now, responseTime = rt, isFraud = flag \<rparr>]
      in drop (length updated - 1000) updated)
   \<and> length (recordMetricsSnapshot now hist rt flag 1000) = min (length hist + 1) 1000
   \<and> last (recordMetricsSnapshot now hist rt flag 1000)
       = \<lparr> timestamp = now, responseTime = rt, isFraud = flag \<rparr>"
  by (auto simp: recordMetricsSnapshot_def Let_def js_slice_last)

subsection \<open>Alert generation\<close>

lemma severityOrder_table:
  "severityOrder s = (case s of SEV_CRITICAL \<Rightarrow> 0 | SEV_WARNING \<Rightarrow> 1 | SEV_INFO \<Rightarrow> 2)"
  by (cases s) simp_all

lemma compareAlerts_le:
  "(compareAlerts a b \<le> 0) =
     ((case severity a of SEV_CRITICAL \<Rightarrow> 0 | SEV_WARNING \<Rightarrow> 1 | SEV_INFO \<Rightarrow> (2::int))
        < (case severity b of SEV_CRITICAL \<Rightarrow> 0 | SEV_WARNING \<Rightarrow> 1 | SEV_INFO \<Rightarrow> (2::int))
      \<or> ((case severity a of SEV_CRITICAL \<Rightarrow> 0 | SEV_WARNING \<Rightarrow> 1 | SEV_INFO \<Rightarrow> (2::int))
          = (case severity b of SEV_CRITICAL \<Rightarrow> 0 | SEV_WARNING \<Rightarrow> 1 | SEV_INFO \<Rightarrow> (2::int))
         \<and> alert_timestamp b \<le> alert_timestamp a))"
  unfolding compareAlerts_def Let_def severityOrder_table by auto

text \<open>The comparator sorts every list of alerts by rank, then by timestamp descending.\<close>

lemma Array_sort_compareAlerts:
  "sorted_wrt (\<lambda>a b.
      (case severity a of SEV_CRITICAL \<Rightarrow> 0 | SEV_WARNING \<Rightarrow> 1 | SEV_INFO \<Rightarrow> (2::int))
        < (case severity b of SEV_CRITICAL \<Rightarrow> 0 | SEV_WARNING \<Rightarrow> 1 | SEV_INFO \<Rightarrow> (2::int))
      \<or> ((case severity a of SEV_CRITICAL \<Rightarrow> 0 | SEV_WARNING \<Rightarrow> 1 | SEV_INFO \<Rightarrow> (2::int))
          = (case severity b of SEV_CRITICAL \<Rightarrow> 0 | SEV_WARNING \<Rightarrow> 1 | SEV_INFO \<Rightarrow> (2::int))
         \<and> alert_timestamp b \<le> alert_timestamp a))
     (Array_sort compareAlerts xs)"
proof -
  have "sorted_wrt (\<lambda>a b. compareAlerts a b \<le> 0) (Array_sort compareAlerts xs)"
  proof (rule sorted_Array_sort)
    show "compareAlerts a b \<le> 0 \<or> compareAlerts b a \<le> 0" for a b
      unfolding compareAlerts_le by linarith
    show "compareAlerts a c \<le> 0" if "compareAlerts a b \<le> 0" "compareAlerts b c \<le> 0" for a b c
      using that unfolding compareAlerts_le by linarith
  qed
  then show ?thesis unfolding compareAlerts_le .
qed

lemma generateAlerts_sorted:
  "sorted_wrt (\<lambda>a b.
      (case severity a of SEV_CRITICAL \<Rightarrow> 0 | SEV_WARNING \<Rightarrow> 1 | SEV_INFO \<Rightarrow> (2::int))
        < (case severity b of SEV_CRITICAL \<Rightarrow> 0 | SEV_WARNING \<Rightarrow> 1 | SEV_INFO \<Rightarrow> (2::int))
      \<or> ((case severity a of SEV_CRITICAL \<Rightarrow> 0 | SEV_WARNING \<Rightarrow> 1 | SEV_INFO \<Rightarrow> (2::int))
          = (case severity b of SEV_CRITICAL \<Rightarrow> 0 | SEV_WARNING \<Rightarrow> 1 | SEV_INFO \<Rightarrow> (2::int))
         \<and> alert_timestamp b \<le> alert_timestamp a))
     (generateAlerts rt txs m)"
  unfolding generateAlerts_def Let_def by (rule Array_sort_compareAlerts)

text \<open>Each rule pushes at most one alert, under a title of its own.\<close>

lemma highFraud_titles:
  "a \<in> set (highFraudAlert rt m) \<Longrightarrow> title a = ''Elevated Fraud Detection Rate''"
  by (auto simp: highFraudAlert_def Let_def split: if_splits)

lemma falsePositive_titles:
  "a \<in> set (falsePositiveAlert rt m) \<Longrightarrow> title a = ''High False Positive Rate''"
  by (auto simp: falsePositiveAlert_def Let_def split: if_splits)

lemma performance_titles:
  "a \<in> set (performanceAlert rt m) \<Longrightarrow> title a = ''System Performance Degradation''"
  by (auto simp: performanceAlert_def Let_def split: if_splits)

lemma highValue_titles:
  "a \<in> set (highValueAlert rt txs) \<Longrightarrow> title a = ''High-Value Fraud Detected''"
  by (auto simp: highValueAlert_def split: option.splits)

lemma merchantRisk_titles:
  "a \<in> set (merchantRiskAlert rt txs) \<Longrightarrow> title a = ''High-Risk Merchant Activity''"
  by (auto simp: merchantRiskAlert_def split: option.splits)

lemma velocity_titles:
  "a \<in> set (velocityAlert rt txs) \<Longrightarrow> title a = ''Abnormal Transaction Velocity''"
  by (auto simp: velocityAlert_def Let_def split: if_splits)

lemmas rule_titles = highFraud_titles falsePositive_titles performance_titles
  highValue_titles merchantRisk_titles velocity_titles

lemma highFraud_distinct: "distinct (map title (highFraudAlert rt m))"
  by (simp add: highFraudAlert_def Let_def)

lemma falsePositive_distinct: "distinct (map title (falsePositiveAlert rt m))"
  by (simp add: falsePositiveAlert_def Let_def)

lemma performance_distinct: "distinct (map title (performanceAlert rt m))"
  by (simp add: performanceAlert_def Let_def)

lemma highValue_distinct: "distinct (map title (highValueAlert rt txs))"
  by (simp add: highValueAlert_def split: option.splits)

lemma merchantRisk_distinct: "distinct (map title (merchantRiskAlert rt txs))"
  by (simp add: merchantRiskAlert_def split: option.splits)

lemma velocity_distinct: "distinct (map title (velocityAlert rt txs))"
  by (simp add: velocityAlert_def Let_def)

lemma pushed_titles_distinct:
  "distinct (map title (highFraudAlert rt m @ falsePositiveAlert rt m
            @ performanceAlert rt m @ highValueAlert rt txs
            @ merchantRiskAlert rt txs @ velocityAlert rt txs))"
  using highFraud_distinct[of rt m] falsePositive_distinct[of rt m] performance_distinct[of rt m]
    highValue_distinct[of rt txs] merchantRisk_distinct[of rt txs] velocity_distinct[of rt txs]
  by (auto dest!: rule_titles)

lemma generateAlerts_titles_distinct: "distinct (map title (generateAlerts rt txs m))"
  unfolding generateAlerts_def Let_def
  using pushed_titles_distinct[of rt m txs] distinct_map_mset[OF mset_Array_sort] by blast

text \<open>
  C9. For every transaction list and prior metrics, the list \<open>generateAlerts\<close> returns is
  sorted by severity rank ascending, the ranks being CRITICAL 0, WARNING 1 and INFO 2,
  and, among alerts of equal severity, by timestamp descending; and no two of its alerts
  share the condition, named by the title, and the related transaction. The ranks are
  those of the comparator's table, and the comparator puts every list of alerts, INFO
  ones included, in that order.
\<close>

theorem generateAlerts_sorted_distinct:
  "sorted_wrt (\<lambda>a b.
      (case severity a of SEV_CRITICAL \<Rightarrow> 0 | SEV_WARNING \<Rightarrow> 1 | SEV_INFO \<Rightarrow> (2::int))
        < (case severity b of SEV_CRITICAL \<Rightarrow> 0 | SEV_WARNING \<Rightarrow> 1 | SEV_INFO \<Rightarrow> (2::int))
      \<or> ((case severity a of SEV_CRITICAL \<Rightarrow> 0 | SEV_WARNING \<Rightarrow> 1 | SEV_INFO \<Rightarrow> (2::int))
          = (case severity b of SEV_CRITICAL \<Rightarrow> 0 | SEV_WARNING \<Rightarrow> 1 | SEV_INFO \<Rightarrow> (2::int))
         \<and> alert_timestamp b \<le> alert_timestamp a))
     (generateAlerts rt txs m)
   \<and> distinct (map (\<lambda>a. (title a, related_transaction_id a)) (generateAlerts rt txs m))
   \<and> severityOrder SEV_CRITICAL = 0 \<and> severityOrder SEV_WARNING = 1
   \<and> severityOrder SEV_INFO = 2
   \<and> (\<forall>xs. sorted_wrt (\<lambda>a b.
          (case severity a of SEV_CRITICAL \<Rightarrow> 0 | SEV_WARNING \<Rightarrow> 1 | SEV_INFO \<Rightarrow> (2::int))
            < (case severity b of SEV_CRITICAL \<Rightarrow> 0 | SEV_WARNING \<Rightarrow> 1 | SEV_INFO \<Rightarrow> (2::int))
          \<or> ((case severity a of SEV_CRITICAL \<Rightarrow> 0 | SEV_WARNING \<Rightarrow> 1 | SEV_INFO \<Rightarrow> (2::int))
              = (case severity b of SEV_CRITICAL \<Rightarrow> 0 | SEV_WARNING \<Rightarrow> 1 | SEV_INFO \<Rightarrow> (2::int))
             \<and> alert_timestamp b \<le> alert_timestamp a))
         (Array_sort compareAlerts xs))"
proof -
  have "distinct (map (\<lambda>a. (title a, related_transaction_id a)) (generateAlerts rt txs m))"
    using generateAlerts_titles_distinct by (rule distinct_map_pair)
  then show ?thesis
    using generateAlerts_sorted[of rt txs m] Array_sort_compareAlerts by simp
qed

text \<open>
  On the slow sample the older CRITICAL performance alert comes before the newer WARNING
  alerts, and within each severity the newer alert comes first.
\<close>

lemma sample_alerts_slow:
  "map (\<lambda>a. (severity a, title a, alert_timestamp a, related_transaction_id a))
     (generateAlerts sample_runtime sample_transactions sample_metrics_slow)
   = [(SEV_CRITICAL, ''High-Value Fraud Detected'', 1700000000000, Some ''TX_2''),
      (SEV_CRITICAL, ''System Performance Degradation'', 1699999400000, None),
      (SEV_WARNING, ''Elevated Fraud Detection Rate'', 1700000000000, None),
      (SEV_WARNING, ''Abnormal Transaction Velocity'', 1699999820000, None),
      (SEV_WARNING, ''High False Positive Rate'', 1699999700000, None),
      (SEV_WARNING, ''High-Risk Merchant Activity'', 1699998800000, Some ''TX_2'')]"
  by (simp add: generateAlerts_def highFraudAlert_def falsePositiveAlert_def
      performanceAlert_def highValueAlert_def merchantRiskAlert_def velocityAlert_def
      sample_runtime_def sample_transactions_def sample_metrics_slow_def sample_tx_def
      or_zero_def js_slice_def toLowerCase_def toLowerChar_def Array_sort_def
      compareAlerts_def char_of_def bit_0 Let_def)

lemma sample_alerts_mixed:
  "Array_sort compareAlerts
     [sample_alert SEV_INFO 900, sample_alert SEV_WARNING 100, sample_alert SEV_INFO 950,
      sample_alert SEV_CRITICAL 50, sample_alert SEV_WARNING 200]
   = [sample_alert SEV_CRITICAL 50, sample_alert SEV_WARNING 200, sample_alert SEV_WARNING 100,
      sample_alert SEV_INFO 950, sample_alert SEV_INFO 900]"
  by (simp add: Array_sort_def compareAlerts_def sample_alert_def Let_def)

theorem generateAlerts_sorted_distinct_witness:
  "map (\<lambda>a. (severity a, title a, alert_timestamp a, related_transaction_id a))
     (generateAlerts sample_runtime sample_transactions sample_metrics_slow)
   = [(SEV_CRITICAL, ''High-Value Fraud Detected'', 1700000000000, Some ''TX_2''),
      (SEV_CRITICAL, ''System Performance Degradation'', 1699999400000, None),
      (SEV_WARNING, ''Elevated Fraud Detection Rate'', 1700000000000, None),
      (SEV_WARNING, ''Abnormal Transaction Velocity'', 1699999820000, None),
      (SEV_WARNING, ''High False Positive Rate'', 1699999700000, None),
      (SEV_WARNING, ''High-Risk Merchant Activity'', 1699998800000, Some ''TX_2'')]
   \<and> sorted_wrt (\<lambda>a b.
        (case severity a of SEV_CRITICAL \<Rightarrow> 0 | SEV_WARNING \<Rightarrow> 1 | SEV_INFO \<Rightarrow> (2::int))
          < (case severity b of SEV_CRITICAL \<Rightarrow> 0 | SEV_WARNING \<Rightarrow> 1 | SEV_INFO \<Rightarrow> (2::int))
        \<or> ((case severity a of SEV_CRITICAL \<Rightarrow> 0 | SEV_WARNING \<Rightarrow> 1 | SEV_INFO \<Rightarrow> (2::int))
            = (case severity b of SEV_CRITICAL \<Rightarrow> 0 | SEV_WARNING \<Rightarrow> 1 | SEV_INFO \<Rightarrow> (2::int))
           \<and> alert_timestamp b \<le> alert_timestamp a))
       (generateAlerts sample_runtime sample_transactions sample_metrics_slow)
   \<and> distinct (map (\<lambda>a. (title a, related_transaction_id a))
         (generateAlerts sample_runtime sample_transactions sample_metrics_slow))
   \<and> Array_sort compareAlerts
        [sample_alert SEV_INFO 900, sample_alert SEV_WARNING 100, sample_alert SEV_INFO 950,
         sample_alert SEV_CRITICAL 50, sample_alert SEV_WARNING 200]
      = [sample_alert SEV_CRITICAL 50, sample_alert SEV_WARNING 200,
         sample_alert SEV_WARNING 100, sample_alert SEV_INFO 950, sample_alert SEV_INFO 900]
   \<and> sorted_wrt (\<lambda>a b.
        (case severity a of SEV_CRITICAL \<Rightarrow> 0 | SEV_WARNING \<Rightarrow> 1 | SEV_INFO \<Rightarrow> (2::int))
          < (case severity b of SEV_CRITICAL \<Rightarrow> 0 | SEV_WARNING \<Rightarrow> 1 | SEV_INFO \<Rightarrow> (2::int))
        \<or> ((case severity a of SEV_CRITICAL \<Rightarrow> 0 | SEV_WARNING \<Rightarrow> 1 | SEV_INFO \<Rightarrow> (2::int))
            = (case severity b of SEV_CRITICAL \<Rightarrow> 0 | SEV_WARNING \<Rightarrow> 1 | SEV_INFO \<Rightarrow> (2::int))
           \<and> alert_timestamp b \<le> alert_timestamp a))
       [sample_alert SEV_CRITICAL 50, sample_alert SEV_WARNING 200,
        sample_alert SEV_WARNING 100, sample_alert SEV_INFO 950, sample_alert SEV_INFO 900]"
proof -
  note t = generateAlerts_sorted_distinct[of sample_runtime sample_transactions
      sample_metrics_slow]
  note s1 = t[THEN conjunct1]
  note d1 = t[THEN conjunct2, THEN conjunct1]
  note a1 = t[THEN conjunct2, THEN conjunct2, THEN conjunct2, THEN conjunct2, THEN conjunct2,
      THEN spec, of "[sample_alert SEV_INFO 900, sample_alert SEV_WARNING 100,
        sample_alert SEV_INFO 950, sample_alert SEV_CRITICAL 50, sample_alert SEV_WARNING 200]"]
  note a2 = a1[unfolded sample_alerts_mixed]
  show ?thesis
    using s1 d1 a2 sample_alerts_slow sample_alerts_mixed by blast
qed

lemma highFraud_sev: "a \<in> set (highFraudAlert rt m) \<Longrightarrow> severity a \<noteq> SEV_INFO"
  by (auto simp: highFraudAlert_def Let_def split: if_splits)

lemma falsePositive_sev: "a \<in> set (falsePositiveAlert rt m) \<Longrightarrow> severity a \<noteq> SEV_INFO"
  by (auto simp: falsePositiveAlert_def Let_def split: if_splits)

lemma performance_sev: "a \<in> set (performanceAlert rt m) \<Longrightarrow> severity a \<noteq> SEV_INFO"
  by (auto simp: performanceAlert_def Let_def split: if_splits)

lemma highValue_sev: "a \<in> set (highValueAlert rt txs) \<Longrightarrow> severity a \<noteq> SEV_INFO"
  by (auto simp: highValueAlert_def split: option.splits)

lemma merchantRisk_sev: "a \<in> set (merchantRiskAlert rt txs) \<Longrightarrow> severity a \<noteq> SEV_INFO"
  by (auto simp: merchantRiskAlert_def split: option.splits)

lemma velocity_sev: "a \<in> set (velocityAlert rt txs) \<Longrightarrow> severity a \<noteq> SEV_INFO"
  by (auto simp: velocityAlert_def Let_def split: if_splits)

text \<open>
  C10. For every transaction list and prior metrics, every alert \<open>generateAlerts\<close>
  returns has severity CRITICAL or WARNING: none of the six rules emits INFO.
\<close>

theorem generateAlerts_never_info:
  "\<forall>a \<in> set (generateAlerts rt txs m). severity a = SEV_CRITICAL \<or> severity a = SEV_WARNING"
proof
  fix a assume "a \<in> set (generateAlerts rt txs m)"
  then have "severity a \<noteq> SEV_INFO"
    unfolding generateAlerts_def Let_def set_Array_sort
    using highFraud_sev falsePositive_sev performance_sev highValue_sev merchantRisk_sev
      velocity_sev
    by auto
  then show "severity a = SEV_CRITICAL \<or> severity a = SEV_WARNING"
    by (cases "severity a") auto
qed

text \<open>The alerts of the sample inputs, as the function computes them.\<close>

lemma sample_alerts:
  "map (\<lambda>a. (severity a, title a, alert_timestamp a, related_transaction_id a))
     (generateAlerts sample_runtime sample_transactions sample_metrics)
   = [(SEV_CRITICAL, ''Elevated Fraud Detection Rate'', 1700000000000, None),
      (SEV_CRITICAL, ''High-Value Fraud Detected'', 1700000000000, Some ''TX_2''),
      (SEV_WARNING, ''Abnormal Transaction Velocity'', 1699999820000, None),
      (SEV_WARNING, ''High False Positive Rate'', 1699999700000, None),
      (SEV_WARNING, ''System Performance Degradation'', 1699999400000, None),
      (SEV_WARNING, ''High-Risk Merchant Activity'', 1699998800000, Some ''TX_2'')]"
  by (simp add: generateAlerts_def highFraudAlert_def falsePositiveAlert_def
      performanceAlert_def highValueAlert_def merchantRiskAlert_def velocityAlert_def
      sample_runtime_def sample_transactions_def sample_metrics_def sample_tx_def
      or_zero_def js_slice_def toLowerCase_def toLowerChar_def Array_sort_def
      compareAlerts_def char_of_def bit_0 Let_def)

theorem generateAlerts_never_info_witness:
  "map severity (generateAlerts sample_runtime sample_transactions sample_metrics)
     = [SEV_CRITICAL, SEV_CRITICAL, SEV_WARNING, SEV_WARNING, SEV_WARNING, SEV_WARNING]
   \<and> list_all (\<lambda>a. severity a = SEV_CRITICAL \<or> severity a = SEV_WARNING)
        (generateAlerts sample_runtime sample_transactions sample_metrics)"
proof -
  have "map severity (generateAlerts sample_runtime sample_transactions sample_metrics)
     = map fst (map (\<lambda>a. (severity a, title a, alert_timestamp a, related_transaction_id a))
         (generateAlerts sample_runtime sample_transactions sample_metrics))"
    by (simp add: comp_def)
  then have "map severity (generateAlerts sample_runtime sample_transactions sample_metrics)
     = [SEV_CRITICAL, SEV_CRITICAL, SEV_WARNING, SEV_WARNING, SEV_WARNING, SEV_WARNING]"
    by (simp only: sample_alerts list.map fst_conv)
  moreover have "list_all (\<lambda>a. severity a = SEV_CRITICAL \<or> severity a = SEV_WARNING)
        (generateAlerts sample_runtime sample_transactions sample_metrics)"
    using generateAlerts_never_info[of sample_runtime sample_transactions sample_metrics]
    by (simp only: list_all_iff)
  ultimately show ?thesis by blast
qed

subsection \<open>Document store\<close>

text \<open>Every policy is what the lookup finds for its user in a table that starts with it.\<close>

lemma getCustomerPolicy_hit: "getCustomerPolicy (policy # table) (user_id policy) = Some policy"
  by (simp add: getCustomerPolicy_def)

text \<open>
  C6. For every customer policy that the lookup finds, every amount and every country,
  \<open>checkPolicyCompliance\<close> evaluates its four rules independently: the amount above the
  daily limit, the country among the blocked countries, the allowed countries non-empty
  and without the country, and the compliance status FAILED_KYC. It collects the
  violation of every rule that applies, in this order, and \<open>compliant\<close> is true exactly
  when the list of violations is empty. With a daily limit of 0 and an amount of 1 the
  result is not compliant and holds the daily-limit violation.
\<close>

theorem checkPolicyCompliance_rules:
  "getCustomerPolicy table userId = Some policy \<Longrightarrow>
   violations (checkPolicyCompliance numText table userId amt country) =
       (if amt > daily_limit policy
        then [''Exceeds daily limit of $'' @ numText (daily_limit policy)] else [])
     @ (if country \<in> set (blocked_countries policy)
        then [''Transaction to blocked country: '' @ country] else [])
     @ (if allowed_countries policy \<noteq> [] \<and> country \<notin> set (allowed_countries policy)
        then [''Country '' @ country @ '' not in allowed list''] else [])
     @ (if compliance_status policy = FAILED_KYC
        then [''Customer failed KYC verification''] else [])
   \<and> compliant (checkPolicyCompliance numText table userId amt country)
       = (violations (checkPolicyCompliance numText table userId amt country) = [])
   \<and> (daily_limit policy = 0 \<and> amt = 1 \<longrightarrow>
        \<not> compliant (checkPolicyCompliance numText table userId amt country)
        \<and> ''Exceeds daily limit of $'' @ numText 0
            \<in> set (violations (checkPolicyCompliance numText table userId amt country)))"
  by (simp add: checkPolicyCompliance_def Let_def)

theorem checkPolicyCompliance_rules_witness:
  "getCustomerPolicy customerPolicies ''USER_SUSPENDED_001'' = Some (customerPolicies ! 3)
   \<and> daily_limit (customerPolicies ! 3) = 0
   \<and> \<not> compliant (checkPolicyCompliance (\<lambda>x. ''0'') customerPolicies ''USER_SUSPENDED_001'' 1 ''US'')
   \<and> violations (checkPolicyCompliance (\<lambda>x. ''0'') customerPolicies ''USER_SUSPENDED_001'' 1 ''US'')
       = [''Exceeds daily limit of $0'', ''Customer failed KYC verification'']"
proof -
  have h: "getCustomerPolicy customerPolicies ''USER_SUSPENDED_001'' = Some (customerPolicies ! 3)"
    by (simp add: getCustomerPolicy_def customerPolicies_def)
  have d: "daily_limit (customerPolicies ! 3) = 0" by (simp add: customerPolicies_def)
  have p: "allowed_countries (customerPolicies ! 3) = []"
    "blocked_countries (customerPolicies ! 3) = [''*'']"
    "compliance_status (customerPolicies ! 3) = FAILED_KYC"
    by (simp_all add: customerPolicies_def)
  show ?thesis
    using checkPolicyCompliance_rules[OF h, of "\<lambda>x. ''0''" 1 "''US''"] h d p by simp
qed

subsection \<open>Application state\<close>

lemma pipelineTick_transactions:
  "transactions (pipelineTick cs now newTx rt st) = take 50 (newTx # transactions st)"
  by (simp add: pipelineTick_def Let_def js_slice_take)

lemma triggerFraudEvent_transactions:
  "transactions (triggerFraudEvent rid forced newTx st) = newTx # transactions st"
  by (simp add: triggerFraudEvent_def addToast_def)

text \<open>
  The pipeline's append keeps the 50 most recent transactions, the newest first: what it
  drops is the oldest.
\<close>

lemma pipelineTick_cap:
  "length (transactions (pipelineTick cs now newTx rt st))
     = min (length (transactions st) + 1) 50"
  by (simp add: pipelineTick_transactions)

text \<open>
  C5. The transaction list is to hold at most the 50 most recent transactions after every
  append, the fraud-injection path included. \<open>triggerFraudEvent\<close> prepends without
  cutting the list: on a list of 50 transactions it leaves 51.
\<close>

theorem triggerFraudEvent_exceeds_cap:
  "length (transactions (triggerFraudEvent ''t1'' BEHAVIORAL
      (sample_tx ''TX_51'' 900 ''Jeweller'' 53 CRITICAL PENDING)
      (sample_state\<lparr> transactions :=
          replicate 50 (sample_tx ''TX_1'' 45 ''Grocer'' 0 LOW PENDING) \<rparr>)))
   = 51"
  by (simp add: triggerFraudEvent_transactions)

text \<open>
  C7, as stated: the id of the new case is unique in the resulting knowledge base. Adding
  the same transaction twice leaves two cases with one id.
\<close>

theorem handleAddToKnowledgeBase_duplicate_id:
  "\<not> distinct (map case_id (knowledgeBase
        (handleAddToKnowledgeBase ''t2''
          (sample_tx ''TX_7'' 700 ''Electronics'' 41 CRITICAL BLOCKED) ''confirmed''
          (handleAddToKnowledgeBase ''t1''
             (sample_tx ''TX_7'' 700 ''Electronics'' 41 CRITICAL BLOCKED) ''confirmed''
             sample_state))))"
  by (simp add: handleAddToKnowledgeBase_def addToast_def sample_state_def sample_tx_def
      INITIAL_KNOWLEDGE_BASE_def Let_def)

text \<open>
  C7, amended. For every knowledge base, transaction and notes, \<open>handleAddToKnowledgeBase\<close>
  returns the old knowledge base with exactly one new case appended at the end: no
  existing entry is changed, the length grows by one, the new id is \<open>CASE_\<close> followed by
  the transaction's id, and the narrative and the merchant are the transaction's. The new
  id is unique in the result exactly when no case of the old knowledge base carries it
  already, and the ids of the result are pairwise different exactly when those of the old
  knowledge base are and none of them is the new id.
\<close>

theorem handleAddToKnowledgeBase_appends:
  "knowledgeBase (handleAddToKnowledgeBase rid tx notes st) =
     knowledgeBase st @
       [\<lparr> case_id = ''CASE_'' @ tx_id tx, case_narrative = narrative tx,
          case_merchant = merchant tx, case_type = ''Confirmed Fraud (Analyst Feedback)'',
          vectorId = Some ''pending_vectorization'' \<rparr>]
   \<and> length (knowledgeBase (handleAddToKnowledgeBase rid tx notes st))
       = length (knowledgeBase st) + 1
   \<and> take (length (knowledgeBase st)) (knowledgeBase (handleAddToKnowledgeBase rid tx notes st))
       = knowledgeBase st
   \<and> (length (filter (\<lambda>c. case_id c = ''CASE_'' @ tx_id tx)
          (knowledgeBase (handleAddToKnowledgeBase rid tx notes st))) = 1)
       = (\<forall>c \<in> set (knowledgeBase st). case_id c \<noteq> ''CASE_'' @ tx_id tx)
   \<and> (distinct (map case_id (knowledgeBase (handleAddToKnowledgeBase rid tx notes st))))
       = (distinct (map case_id (knowledgeBase st))
          \<and> (\<forall>c \<in> set (knowledgeBase st). case_id c \<noteq> ''CASE_'' @ tx_id tx))"
proof -
  let ?new = "\<lparr> case_id = ''CASE_'' @ tx_id tx, case_narrative = narrative tx,
          case_merchant = merchant tx, case_type = ''Confirmed Fraud (Analyst Feedback)'',
          vectorId = Some ''pending_vectorization'' \<rparr>"
  let ?kb = "knowledgeBase st"
  have kb: "knowledgeBase (handleAddToKnowledgeBase rid tx notes st) = ?kb @ [?new]"
    by (simp add: handleAddToKnowledgeBase_def addToast_def Let_def)
  have uniq: "(length (filter (\<lambda>c. case_id c = ''CASE_'' @ tx_id tx) (?kb @ [?new])) = 1)
       = (\<forall>c \<in> set ?kb. case_id c \<noteq> ''CASE_'' @ tx_id tx)"
    by (simp add: filter_empty_conv)
  have dist: "distinct (map case_id (?kb @ [?new]))
       = (distinct (map case_id ?kb) \<and> (\<forall>c \<in> set ?kb. case_id c \<noteq> ''CASE_'' @ tx_id tx))"
    by (simp only: distinct_map_snoc FraudCase.simps)
  show ?thesis unfolding kb using uniq dist by simp
qed

theorem handleAddToKnowledgeBase_appends_witness:
  "distinct (map case_id (knowledgeBase sample_state))
   \<and> distinct (map case_id (knowledgeBase
        (handleAddToKnowledgeBase ''t1''
           (sample_tx ''TX_7'' 700 ''Electronics'' 41 CRITICAL BLOCKED) ''confirmed''
           sample_state)))
   \<and> length (knowledgeBase
        (handleAddToKnowledgeBase ''t1''
           (sample_tx ''TX_7'' 700 ''Electronics'' 41 CRITICAL BLOCKED) ''confirmed''
           sample_state)) = 4"
proof -
  have d: "distinct (map case_id (knowledgeBase sample_state))"
    by (simp add: sample_state_def INITIAL_KNOWLEDGE_BASE_def)
  have n: "\<forall>c \<in> set (knowledgeBase sample_state).
      case_id c \<noteq> ''CASE_'' @ tx_id (sample_tx ''TX_7'' 700 ''Electronics'' 41 CRITICAL BLOCKED)"
    by (simp add: sample_state_def INITIAL_KNOWLEDGE_BASE_def sample_tx_def)
  have l: "length (knowledgeBase sample_state) = 3"
    by (simp add: sample_state_def INITIAL_KNOWLEDGE_BASE_def)
  note t = handleAddToKnowledgeBase_appends[of "''t1''"
      "sample_tx ''TX_7'' 700 ''Electronics'' 41 CRITICAL BLOCKED" "''confirmed''" sample_state]
  have D: "distinct (map case_id (knowledgeBase
        (handleAddToKnowledgeBase ''t1''
           (sample_tx ''TX_7'' 700 ''Electronics'' 41 CRITICAL BLOCKED) ''confirmed''
           sample_state)))"
    using t[THEN conjunct2, THEN conjunct2, THEN conjunct2, THEN conjunct2] d n by blast
  have L: "length (knowledgeBase
        (handleAddToKnowledgeBase ''t1''
           (sample_tx ''TX_7'' 700 ''Electronics'' 41 CRITICAL BLOCKED) ''confirmed''
           sample_state)) = 4"
    using t[THEN conjunct2, THEN conjunct1] l by simp
  show ?thesis using d D L by blast
qed

end
